theory Spec2Isabelle
  imports Main "HOL-Library.Word"
begin

unbundle bit_operations_syntax

section \<open>The TKEY exchange of tsig.go\<close>

text \<open>
  The repository is one Go function, \<open>ExchangeTKEY\<close> (src/tsig.go). It builds a DNS
  query carrying a TKEY record, optionally adds a TSIG record, resolves the host, tries
  every address in turn and validates the reply. The function is embedded as a pure
  function of its arguments and of an environment \<open>env\<close> that stands for the
  collaborators it calls (the clock, the id generator, the resolver, the DNS client's
  \<open>Exchange\<close>, the table \<open>dns.RcodeToString\<close>). Next to Go's three results it returns
  the list of calls it made to the resolver and to the transport, in order.
\<close>

subsection \<open>Machine integers and library constants\<close>

type_synonym byte = "8 word"
type_synonym uint16 = "16 word"
type_synonym uint32 = "32 word"
type_synonym uint64 = "64 word"
type_synonym int64 = "64 word"

text \<open>tsig.go, lines 13-30.\<close>

definition GSS :: string where
  "GSS = ''gss-tsig.''"

definition TkeyModeServer :: uint16 where "TkeyModeServer = 1"
definition TkeyModeDH :: uint16 where "TkeyModeDH = 2"
definition TkeyModeGSS :: uint16 where "TkeyModeGSS = 3"
definition TkeyModeResolver :: uint16 where "TkeyModeResolver = 4"
definition TkeyModeDelete :: uint16 where "TkeyModeDelete = 5"

text \<open>Constants of github.com/miekg/dns that the function names.\<close>

definition TypeTKEY :: uint16 where "TypeTKEY = 249"
definition TypeTSIG :: uint16 where "TypeTSIG = 250"
definition ClassANY :: uint16 where "ClassANY = 255"
definition RcodeSuccess :: int where "RcodeSuccess = 0"

subsection \<open>Records of the DNS library\<close>

record RR_Header =
  Name :: string
  Rrtype :: uint16
  Class :: uint16
  Ttl :: uint32
  Rdlength :: uint16

record TKEY =
  Hdr :: RR_Header
  Algorithm :: string
  Inception :: uint32
  Expiration :: uint32
  Mode :: uint16
  Error :: uint16
  KeySize :: uint16
  Key :: string
  OtherLen :: uint16
  OtherData :: string

record TSIG =
  Hdr_tsig :: RR_Header
  Algorithm_tsig :: string
  TimeSigned :: uint64
  Fudge :: uint16
  MACSize :: uint16
  MAC :: string
  OrigId :: uint16
  Error_tsig :: uint16
  OtherLen_tsig :: uint16
  OtherData_tsig :: string

text \<open>
  \<open>dns.RR\<close> is an interface; the function only asks whether a record is a
  \<open>*dns.TKEY\<close> (the type switch of line 136). Records of any other type are opaque,
  except TSIG, which \<open>SetTsig\<close> builds. A record is a value here: the library's
  unpacker allocates every record of a section, so none is a nil pointer.
\<close>

datatype RR = RR_TKEY TKEY | RR_TSIG TSIG | RR_Other nat

record Question =
  Name_q :: string
  Qtype :: uint16
  Qclass :: uint16

text \<open>\<open>dns.Msg\<close>: the header fields the function sets or reads, and the sections.\<close>

record Msg =
  Id_msg :: uint16
  RecursionDesired :: bool
  Rcode :: int
  Question :: "Question list"
  Answer :: "RR list"
  Ns :: "RR list"
  Extra :: "RR list"

datatype tsig_func = TsigFunc nat

record TsigAlgorithm =
  Generate :: "tsig_func option"
  Verify :: "tsig_func option"

text \<open>\<open>dns.Client\<close>: a nil Go map is the empty map.\<close>

record Client =
  Net :: string
  TsigAlgorithm :: "string \<rightharpoonup> TsigAlgorithm"
  TsigSecret :: "string \<rightharpoonup> string"

subsection \<open>Errors\<close>

text \<open>
  A Go \<open>error\<close> is nil (\<open>None\<close>) or one of: the error \<open>fmt.Errorf\<close> builds, with its
  text; an error of a collaborator (resolver, transport), opaque; a
  \<open>*multierror.Error\<close> with its list of errors.
\<close>

datatype error = Errorf string | LibError string | MultiError "error list"

text \<open>
  \<open>multierror.Append(err, e)\<close>: the errors of \<open>err\<close> (none when it is nil), then
  \<open>e\<close>; an argument that is itself a \<open>*multierror.Error\<close> is flattened.
\<close>

fun errors_of :: "error \<Rightarrow> error list" where
  "errors_of (MultiError es) = es"
| "errors_of e = [e]"

definition multierror_Append :: "error option \<Rightarrow> error \<Rightarrow> error" where
  "multierror_Append errs e =
     MultiError ((case errs of None \<Rightarrow> [] | Some x \<Rightarrow> errors_of x) @ errors_of e)"

subsection \<open>Library functions on strings and bytes\<close>

text \<open>The verb \<open>%d\<close> of \<open>fmt.Errorf\<close>: decimal digits, with a sign when negative.\<close>

definition digit_char :: "nat \<Rightarrow> char" where
  "digit_char d = char_of (48 + d)"

fun fmt_nat :: "nat \<Rightarrow> string" where
  "fmt_nat n = (if n < 10 then [digit_char n] else fmt_nat (n div 10) @ [digit_char (n mod 10)])"

declare fmt_nat.simps [simp del]

definition fmt_d :: "int \<Rightarrow> string" where
  "fmt_d i = (if i < 0 then CHR ''-'' # fmt_nat (nat (- i)) else fmt_nat (nat i))"

text \<open>
  \<open>hex.EncodeToString\<close>: two characters of \<open>hextable\<close> for every byte, the high
  nibble first.
\<close>

definition hextable :: string where
  "hextable = ''0123456789abcdef''"

fun hex_EncodeToString :: "byte list \<Rightarrow> string" where
  "hex_EncodeToString [] = []"
| "hex_EncodeToString (v # src) =
     hextable ! unat (drop_bit 4 v) # hextable ! unat (v AND 0x0f) # hex_EncodeToString src"

text \<open>
  Lowercase hexadecimal as the specification has it, to compare \<open>hex_EncodeToString\<close>
  with: the digit of a value below 16, and two digits for every byte, the high one first.
\<close>

definition hex_digit :: "nat \<Rightarrow> char" where
  "hex_digit n =
     (if n < 10 then char_of (of_char CHR ''0'' + n) else char_of (of_char CHR ''a'' + (n - 10)))"

definition lowercase_hex :: "byte list \<Rightarrow> string" where
  "lowercase_hex bs = concat (map (\<lambda>b. [hex_digit (unat b div 16), hex_digit (unat b mod 16)]) bs)"

text \<open>\<open>net.JoinHostPort\<close>: a host with a colon (an IPv6 literal) goes in brackets.\<close>

definition JoinHostPort :: "string \<Rightarrow> string \<Rightarrow> string" where
  "JoinHostPort h port =
     (if CHR '':'' \<in> set h then ''['' @ h @ '']:'' @ port else h @ '':'' @ port)"

text \<open>
  \<open>msg.SetTsig(z, algo, fudge, timesigned)\<close> of the DNS library appends a fresh TSIG
  record to the additional section.
\<close>

definition SetTsig :: "Msg \<Rightarrow> string \<Rightarrow> string \<Rightarrow> uint16 \<Rightarrow> int64 \<Rightarrow> Msg" where
  "SetTsig m z algo fudge timesigned =
     m\<lparr>Extra := Extra m @
        [RR_TSIG \<lparr>Hdr_tsig = \<lparr>Name = z, Rrtype = TypeTSIG, Class = ClassANY, Ttl = 0, Rdlength = 0\<rparr>,
                  Algorithm_tsig = algo, TimeSigned = timesigned, Fudge = fudge, MACSize = 0,
                  MAC = [], OrigId = Id_msg m, Error_tsig = 0, OtherLen_tsig = 0,
                  OtherData_tsig = []\<rparr>]\<rparr>"

subsection \<open>The collaborators\<close>

text \<open>
  \<open>time_Now_Unix env k\<close> is the clock's k-th reading in the call (\<open>time.Now().Unix()\<close>,
  an int64); \<open>dns_Id\<close> the transaction id \<open>dns.Id()\<close> draws; \<open>net_LookupHost\<close> the
  resolver, returning Go's pair of addresses and error; \<open>client_Exchange env k c m a\<close>
  the k-th call of \<open>client.Exchange\<close>, returning the state in which it leaves the
  message object it was handed (it receives a pointer), the response (nil is \<open>None\<close>) and
  the error; \<open>RcodeToString\<close> the library's table of status names;
  \<open>unicode_ToLower\<close> what \<open>strings.ToLower\<close> does to a string with a non-ASCII byte.
\<close>

record env =
  time_Now_Unix :: "nat \<Rightarrow> int64"
  dns_Id :: uint16
  net_LookupHost :: "string \<Rightarrow> string list \<times> error option"
  client_Exchange :: "nat \<Rightarrow> Client \<Rightarrow> Msg \<Rightarrow> string \<Rightarrow> Msg \<times> Msg option \<times> error option"
  RcodeToString :: "int \<rightharpoonup> string"
  unicode_ToLower :: "string \<Rightarrow> string"

text \<open>
  \<open>strings.ToLower\<close>: a string of ASCII bytes is lowered byte by byte; any other string
  is mapped through \<open>unicode.ToLower\<close>.
\<close>

definition ascii_lower :: "char \<Rightarrow> char" where
  "ascii_lower c =
     (if of_char CHR ''A'' \<le> (of_char c :: nat) \<and> (of_char c :: nat) \<le> of_char CHR ''Z''
      then char_of (of_char c + (32 :: nat)) else c)"

definition strings_ToLower :: "env \<Rightarrow> string \<Rightarrow> string" where
  "strings_ToLower e s =
     (if list_all (\<lambda>c. (of_char c :: nat) < 128) s then map ascii_lower s
      else unicode_ToLower e s)"

text \<open>A Go map lookup of a missing key gives the zero value, the empty string.\<close>

definition rcode_name :: "env \<Rightarrow> int \<Rightarrow> string" where
  "rcode_name e c = (case RcodeToString e c of None \<Rightarrow> [] | Some s \<Rightarrow> s)"

subsection \<open>ExchangeTKEY\<close>

text \<open>
  A call to a collaborator that reaches the network: the resolver with the host, or the
  transport with the client, the message and the target it was handed and the response and
  error it returned.
\<close>

datatype event =
    EvLookupHost string
  | EvExchange Client Msg string "Msg option" "error option"

type_synonym result = "TKEY option \<times> RR list option \<times> error option"

text \<open>
  Lines 66-95: the clock reading, the switch on the mode and the TKEY record of the
  request. \<open>Inl\<close> is the return of the default case. \<open>uint32(now)\<close> keeps the low 32
  bits, \<open>uint16(len(input))\<close> the low 16.
\<close>

definition build_tkey ::
  "env \<Rightarrow> string \<Rightarrow> string \<Rightarrow> uint16 \<Rightarrow> uint32 \<Rightarrow> byte list \<Rightarrow> error + TKEY" where
  "build_tkey e keyname algorithm mode lifetime input =
     (let now = time_Now_Unix e 0 in
      case (if mode = TkeyModeDH \<or> mode = TkeyModeGSS then Some (ucast now, ucast now + lifetime)
            else if mode = TkeyModeDelete then Some (0, 0)
            else None) of
        None \<Rightarrow> Inl (Errorf (''Unsupported TKEY mode '' @ fmt_d (uint mode)))
      | Some (inception, expiration) \<Rightarrow>
          Inr \<lparr>Hdr = \<lparr>Name = keyname, Rrtype = TypeTKEY, Class = ClassANY, Ttl = 0, Rdlength = 0\<rparr>,
               Algorithm = algorithm,
               Inception = inception,
               Expiration = expiration,
               Mode = mode,
               Error = 0,
               KeySize = of_nat (length input),
               Key = hex_EncodeToString input,
               OtherLen = 0,
               OtherData = []\<rparr>)"

text \<open>
  Lines 109-121, the loop over the addresses. \<open>copied := msg\<close> copies the pointer, so
  every attempt hands the transport the one message object, in the state the attempt
  before left it in. The result is \<open>rr\<close> and \<open>errs\<close> after the loop, and the calls made.
\<close>

fun send_loop ::
  "env \<Rightarrow> Client \<Rightarrow> nat \<Rightarrow> string list \<Rightarrow> Msg \<Rightarrow> error option \<Rightarrow>
   Msg option \<times> error option \<times> event list" where
  "send_loop e client k [] msg errs = (None, errs, [])"
| "send_loop e client k (addr # addrs) msg errs =
     (case client_Exchange e k client msg (JoinHostPort addr ''53'') of
        (msg', rr, err) \<Rightarrow>
          if err = None \<or> rr \<noteq> None
          then (rr, errs, [EvExchange client msg (JoinHostPort addr ''53'') rr err])
          else
            (case send_loop e client (Suc k) addrs msg' (Some (multierror_Append errs (the err))) of
               (rr', errs', tr) \<Rightarrow>
                 (rr', errs', EvExchange client msg (JoinHostPort addr ''53'') rr err # tr)))"

text \<open>
  Lines 131-146, the loop over the answer section, from the current \<open>tkey\<close> and
  \<open>additional\<close>: \<open>Inl\<close> is the early return.
\<close>

fun answer_loop :: "RR list \<Rightarrow> TKEY option \<Rightarrow> RR list \<Rightarrow> error + TKEY option \<times> RR list" where
  "answer_loop [] tkey additional = Inr (tkey, additional)"
| "answer_loop (RR_TKEY t # rest) tkey additional =
     (if tkey \<noteq> None then Inl (Errorf ''Multiple TKEY responses'')
      else answer_loop rest (Some t) additional)"
| "answer_loop (ans # rest) tkey additional = answer_loop rest tkey (additional @ [ans])"

text \<open>Lines 127-157, on the response \<open>rr\<close>.\<close>

definition validate :: "env \<Rightarrow> Msg \<Rightarrow> result" where
  "validate e rr =
     (if Rcode rr \<noteq> RcodeSuccess then
        (None, None,
         Some (Errorf (''DNS error: '' @ rcode_name e (Rcode rr) @ '' ('' @ fmt_d (Rcode rr) @ '')'')))
      else
        (case answer_loop (Answer rr) None [] of
           Inl err \<Rightarrow> (None, None, Some err)
         | Inr (None, additional) \<Rightarrow> (None, None, Some (Errorf ''Received no TKEY response''))
         | Inr (Some tkey, additional) \<Rightarrow>
             if Error tkey \<noteq> 0 then
               (None, None,
                Some (Errorf (''TKEY error: '' @ rcode_name e (uint (Error tkey)) @ '' ('' @
                              fmt_d (uint (Error tkey)) @ '')'')))
             else (Some tkey, Some additional, None)))"

text \<open>Lines 40-48: the client, with the GSS configuration.\<close>

definition make_client :: "env \<Rightarrow> string \<Rightarrow> string \<Rightarrow> Client" where
  "make_client e keyname algorithm =
     (if strings_ToLower e algorithm = GSS then
        \<lparr>Net = ''tcp'',
         TsigAlgorithm = [GSS \<mapsto> \<lparr>Generate = None, Verify = None\<rparr>],
         TsigSecret = [keyname \<mapsto> []]\<rparr>
      else \<lparr>Net = ''tcp'', TsigAlgorithm = Map.empty, TsigSecret = Map.empty\<rparr>)"

text \<open>Lines 50-64, 82 and 97: the message around the TKEY record.\<close>

definition make_msg :: "env \<Rightarrow> string \<Rightarrow> TKEY \<Rightarrow> RR list \<Rightarrow> Msg" where
  "make_msg e keyname tkey extra =
     \<lparr>Id_msg = dns_Id e,
      RecursionDesired = False,
      Rcode = 0,
      Question = [\<lparr>Name_q = keyname, Qtype = TypeTKEY, Qclass = ClassANY\<rparr>],
      Answer = [],
      Ns = [],
      Extra = [RR_TKEY tkey] @ extra\<rparr>"

text \<open>Lines 104-107: the TSIG record and the secret, when the condition holds.\<close>

definition add_tsig ::
  "env \<Rightarrow> string \<Rightarrow> string option \<Rightarrow> string option \<Rightarrow> string option \<Rightarrow> Client \<Rightarrow> Msg \<Rightarrow>
   Client \<times> Msg" where
  "add_tsig e algorithm tsigname tsigalgo tsigmac client msg =
     (if strings_ToLower e algorithm \<noteq> GSS \<and> tsigname \<noteq> None \<and> tsigalgo \<noteq> None \<and>
         tsigmac \<noteq> None
      then (client\<lparr>TsigSecret := [the tsigname \<mapsto> the tsigmac]\<rparr>,
            SetTsig msg (the tsigname) (the tsigalgo) 300 (time_Now_Unix e 1))
      else (client, msg))"

text \<open>
  The function. A nil pointer, slice or error is \<open>None\<close>; the three results are Go's,
  the event list is the calls to the resolver and the transport, in the order made.
\<close>

definition ExchangeTKEY ::
  "env \<Rightarrow> string \<Rightarrow> string \<Rightarrow> string \<Rightarrow> uint16 \<Rightarrow> uint32 \<Rightarrow> byte list \<Rightarrow> RR list \<Rightarrow>
   string option \<Rightarrow> string option \<Rightarrow> string option \<Rightarrow> result \<times> event list" where
  "ExchangeTKEY e host keyname algorithm mode lifetime input extra tsigname tsigalgo tsigmac =
     (case build_tkey e keyname algorithm mode lifetime input of
        Inl err \<Rightarrow> ((None, None, Some err), [])
      | Inr tkey \<Rightarrow>
          (case net_LookupHost e host of
             (addrs, Some err) \<Rightarrow> ((None, None, Some err), [EvLookupHost host])
           | (addrs, None) \<Rightarrow>
               (case add_tsig e algorithm tsigname tsigalgo tsigmac
                       (make_client e keyname algorithm) (make_msg e keyname tkey extra) of
                  (client, msg) \<Rightarrow>
                    (case send_loop e client 0 addrs msg None of
                       (None, errs, tr) \<Rightarrow> ((None, None, errs), EvLookupHost host # tr)
                     | (Some rr, errs, tr) \<Rightarrow> (validate e rr, EvLookupHost host # tr)))))"

subsection \<open>Reading a run\<close>

text \<open>The transport calls of a run, in order: target, response, error.\<close>

fun exchanges :: "event list \<Rightarrow> (string \<times> Msg option \<times> error option) list" where
  "exchanges [] = []"
| "exchanges (EvExchange c m a rr err # tr) = (a, rr, err) # exchanges tr"
| "exchanges (EvLookupHost h # tr) = exchanges tr"

text \<open>The client and the message handed to each transport call, in order.\<close>

fun calls :: "event list \<Rightarrow> (Client \<times> Msg) list" where
  "calls [] = []"
| "calls (EvExchange c m a rr err # tr) = (c, m) # calls tr"
| "calls (EvLookupHost h # tr) = calls tr"

text \<open>The response the last transport call returned, \<open>None\<close> when it was nil or no call
  was made.\<close>

definition received :: "event list \<Rightarrow> Msg option" where
  "received tr = (case exchanges tr of [] \<Rightarrow> None | x # xs \<Rightarrow> fst (snd (last (x # xs))))"

text \<open>An attempt that failed: an error and no response.\<close>

fun failed :: "string \<times> Msg option \<times> error option \<Rightarrow> bool" where
  "failed (a, None, Some err) = True"
| "failed (a, rr, err) = False"

text \<open>The errors of a list of attempts, in order, each flattened as
  \<open>multierror.Append\<close> does.\<close>

fun attempt_errors :: "(string \<times> Msg option \<times> error option) list \<Rightarrow> error list" where
  "attempt_errors [] = []"
| "attempt_errors ((a, rr, None) # xs) = attempt_errors xs"
| "attempt_errors ((a, rr, Some err) # xs) = errors_of err @ attempt_errors xs"

text \<open>The value of \<open>errs\<close> after these failed attempts: nil when there was none.\<close>

definition aggregate :: "(string \<times> Msg option \<times> error option) list \<Rightarrow> error option" where
  "aggregate xs = (if xs = [] then None else Some (MultiError (attempt_errors xs)))"

text \<open>The TKEY records of an answer section, and the other records, each in order.\<close>

fun tkey_answers :: "RR list \<Rightarrow> TKEY list" where
  "tkey_answers [] = []"
| "tkey_answers (RR_TKEY t # rs) = t # tkey_answers rs"
| "tkey_answers (r # rs) = tkey_answers rs"

fun is_tkey :: "RR \<Rightarrow> bool" where
  "is_tkey (RR_TKEY t) = True"
| "is_tkey r = False"

fun is_tsig :: "RR \<Rightarrow> bool" where
  "is_tsig (RR_TSIG t) = True"
| "is_tsig r = False"

definition other_answers :: "RR list \<Rightarrow> RR list" where
  "other_answers rs = filter (\<lambda>r. \<not> is_tkey r) rs"

subsection \<open>Example runs\<close>

text \<open>
  Status names as the DNS library's table \<open>RcodeToString\<close> has them, for the codes the
  examples use.
\<close>

definition example_rcodes :: "int \<rightharpoonup> string" where
  "example_rcodes =
     map_of [(0, ''NOERROR''), (1, ''FORMERR''), (2, ''SERVFAIL''), (3, ''NXDOMAIN''),
             (4, ''NOTIMP''), (5, ''REFUSED''), (9, ''NOTAUTH''), (16, ''BADSIG''),
             (17, ''BADKEY''), (18, ''BADTIME''), (19, ''BADMODE''), (20, ''BADNAME''),
             (21, ''BADALG'')]"

text \<open>
  An environment: the clock reads 1700000000 and one more at each later reading, the
  resolver returns two addresses, every transport attempt fails with no response.
\<close>

definition example_env :: env where
  "example_env =
     \<lparr>time_Now_Unix = (\<lambda>k. 1700000000 + of_nat k),
      dns_Id = 4660,
      net_LookupHost = (\<lambda>h. ([''192.0.2.1'', ''2001:db8::1''], None)),
      client_Exchange = (\<lambda>k c m a. (m, None, Some (LibError (''dial tcp '' @ a)))),
      RcodeToString = example_rcodes,
      unicode_ToLower = (\<lambda>s. s)\<rparr>"

text \<open>A TKEY answer with the given error code, and a response with the given status
  and answer section.\<close>

definition example_tkey :: "uint16 \<Rightarrow> TKEY" where
  "example_tkey err =
     \<lparr>Hdr = \<lparr>Name = ''k.example.'', Rrtype = TypeTKEY, Class = ClassANY, Ttl = 0, Rdlength = 0\<rparr>,
      Algorithm = ''gss-tsig.'', Inception = 1700000000, Expiration = 1700003600,
      Mode = TkeyModeGSS, Error = err, KeySize = 2, Key = ''beef'', OtherLen = 0,
      OtherData = []\<rparr>"

definition example_response :: "int \<Rightarrow> RR list \<Rightarrow> Msg" where
  "example_response rcode answers =
     \<lparr>Id_msg = 4660, RecursionDesired = False, Rcode = rcode, Question = [],
      Answer = answers, Ns = [], Extra = []\<rparr>"

text \<open>A transport that answers every attempt with the given response.\<close>

definition answering :: "Msg \<Rightarrow> nat \<Rightarrow> Client \<Rightarrow> Msg \<Rightarrow> string \<Rightarrow> Msg \<times> Msg option \<times> error option" where
  "answering r k c m a = (m, Some r, None)"

text \<open>A transport whose first attempt fails and whose later attempts return neither a
  response nor an error.\<close>

definition failing_then_silent :: "nat \<Rightarrow> Client \<Rightarrow> Msg \<Rightarrow> string \<Rightarrow> Msg \<times> Msg option \<times> error option" where
  "failing_then_silent k c m a =
     (m, None, if k = 0 then Some (LibError (''dial tcp '' @ a)) else None)"

text \<open>A transport whose first attempt fails and whose later attempts answer with the
  given response.\<close>

definition failing_then_answering ::
  "Msg \<Rightarrow> nat \<Rightarrow> Client \<Rightarrow> Msg \<Rightarrow> string \<Rightarrow> Msg \<times> Msg option \<times> error option" where
  "failing_then_answering r k c m a =
     (if k = 0 then (m, None, Some (LibError (''dial tcp '' @ a))) else (m, Some r, None))"

text \<open>A transport that returns neither a response nor an error.\<close>

definition silent :: "nat \<Rightarrow> Client \<Rightarrow> Msg \<Rightarrow> string \<Rightarrow> Msg \<times> Msg option \<times> error option" where
  "silent k c m a = (m, None, None)"

text \<open>
  A transport that does to the message what the DNS library's \<open>TsigGenerate\<close> does when
  the last additional record is a TSIG (it removes it from the message before packing)
  and then fails.
\<close>

definition drop_tsig :: "Msg \<Rightarrow> Msg" where
  "drop_tsig m =
     (case rev (Extra m) of
        RR_TSIG t # rest \<Rightarrow> m\<lparr>Extra := rev rest\<rparr>
      | _ \<Rightarrow> m)"

definition signing_then_failing :: "nat \<Rightarrow> Client \<Rightarrow> Msg \<Rightarrow> string \<Rightarrow> Msg \<times> Msg option \<times> error option" where
  "signing_then_failing k c m a = (drop_tsig m, None, Some (LibError (''dial tcp '' @ a)))"

text \<open>A transport whose every attempt fails with the same error and no response.\<close>

definition timing_out :: "nat \<Rightarrow> Client \<Rightarrow> Msg \<Rightarrow> string \<Rightarrow> Msg \<times> Msg option \<times> error option" where
  "timing_out k c m a = (m, None, Some (LibError ''i/o timeout''))"

text \<open>A clock past the year 2106: its readings no longer fit 32 bits.\<close>

definition late_clock :: "nat \<Rightarrow> int64" where
  "late_clock k = 4294967396"

text \<open>A resolver that returns no address and no error, and one that returns an error.\<close>

definition resolving_nothing :: "string \<Rightarrow> string list \<times> error option" where
  "resolving_nothing h = ([], None)"

definition not_resolving :: "string \<Rightarrow> string list \<times> error option" where
  "not_resolving h = ([], Some (LibError (''lookup '' @ h @ '': no such host'')))"

section \<open>Properties\<close>

subsection \<open>The loops and the stages\<close>

lemmas run_defs =
  ExchangeTKEY_def example_env_def build_tkey_def TkeyModeGSS_def TkeyModeDH_def
  TkeyModeDelete_def TkeyModeServer_def TkeyModeResolver_def add_tsig_def make_client_def
  make_msg_def strings_ToLower_def ascii_lower_def GSS_def JoinHostPort_def received_def
  example_response_def example_tkey_def validate_def RcodeSuccess_def rcode_name_def
  example_rcodes_def SetTsig_def

lemma answer_loop_Some:
  "answer_loop rs (Some t0) add =
     (if tkey_answers rs = [] then Inr (Some t0, add @ other_answers rs)
      else Inl (Errorf ''Multiple TKEY responses''))"
proof (induction rs arbitrary: add)
  case Nil
  show ?case by (simp add: other_answers_def)
next
  case (Cons r rs)
  show ?case by (cases r) (simp_all add: Cons.IH other_answers_def)
qed

lemma answer_loop_None:
  "answer_loop rs None add =
     (case tkey_answers rs of
        [] \<Rightarrow> Inr (None, add @ other_answers rs)
      | [t] \<Rightarrow> Inr (Some t, add @ other_answers rs)
      | t # t' # ts \<Rightarrow> Inl (Errorf ''Multiple TKEY responses''))"
proof (induction rs arbitrary: add)
  case Nil
  show ?case by (simp add: other_answers_def)
next
  case (Cons r rs)
  show ?case
    by (cases r) (simp_all add: Cons.IH answer_loop_Some other_answers_def split: list.splits)
qed

lemma validate_eq:
  "validate e rr =
   (if Rcode rr \<noteq> RcodeSuccess then
      (None, None,
       Some (Errorf (''DNS error: '' @ rcode_name e (Rcode rr) @ '' ('' @ fmt_d (Rcode rr) @ '')'')))
    else
      (case tkey_answers (Answer rr) of
         [] \<Rightarrow> (None, None, Some (Errorf ''Received no TKEY response''))
       | [t] \<Rightarrow>
           if Error t \<noteq> 0 then
             (None, None,
              Some (Errorf (''TKEY error: '' @ rcode_name e (uint (Error t)) @ '' ('' @
                            fmt_d (uint (Error t)) @ '')'')))
           else (Some t, Some (other_answers (Answer rr)), None)
       | t # t' # ts \<Rightarrow> (None, None, Some (Errorf ''Multiple TKEY responses''))))"
  by (simp add: validate_def answer_loop_None split: list.splits)

lemma received_Cons:
  "received (EvExchange c m a rr err # tr) = (if exchanges tr = [] then rr else received tr)"
  by (simp add: received_def split: list.splits)

lemma received_Lookup: "received (EvLookupHost h # tr) = received tr"
  by (simp add: received_def)

lemma send_loop_received:
  "send_loop e c k addrs msg errs = (rr, errs', tr) \<Longrightarrow> received tr = rr"
proof (induction addrs arbitrary: k msg errs rr errs' tr)
  case Nil
  then show ?case by (simp add: received_def)
next
  case (Cons addr addrs)
  obtain m' r er where ex: "client_Exchange e k c msg (JoinHostPort addr ''53'') = (m', r, er)"
    by (cases "client_Exchange e k c msg (JoinHostPort addr ''53'')") auto
  show ?case
  proof (cases "er = None \<or> r \<noteq> None")
    case True
    with Cons.prems ex show ?thesis by (auto simp add: received_def)
  next
    case False
    obtain rr2 errs2 tr2 where
      rest: "send_loop e c (Suc k) addrs m' (Some (multierror_Append errs (the er))) = (rr2, errs2, tr2)"
      by (cases "send_loop e c (Suc k) addrs m' (Some (multierror_Append errs (the er)))") auto
    from Cons.IH [OF rest] have "received tr2 = rr2" .
    moreover from False have "r = None" by simp
    moreover from Cons.prems ex False rest
    have "rr = rr2" "tr = EvExchange c msg (JoinHostPort addr ''53'') r er # tr2" by auto
    ultimately show ?thesis by (simp add: received_Cons received_def split: list.splits)
  qed
qed

lemma ExchangeTKEY_cases:
  obtains
    (unsupported) err where
      "build_tkey e keyname algorithm mode lifetime input = Inl err"
      "ExchangeTKEY e host keyname algorithm mode lifetime input extra tsigname tsigalgo tsigmac =
         ((None, None, Some err), [])"
  | (unresolved) tkey addrs err where
      "build_tkey e keyname algorithm mode lifetime input = Inr tkey"
      "net_LookupHost e host = (addrs, Some err)"
      "ExchangeTKEY e host keyname algorithm mode lifetime input extra tsigname tsigalgo tsigmac =
         ((None, None, Some err), [EvLookupHost host])"
  | (sent) tkey addrs client msg rr errs tr where
      "build_tkey e keyname algorithm mode lifetime input = Inr tkey"
      "net_LookupHost e host = (addrs, None)"
      "add_tsig e algorithm tsigname tsigalgo tsigmac (make_client e keyname algorithm)
         (make_msg e keyname tkey extra) = (client, msg)"
      "send_loop e client 0 addrs msg None = (rr, errs, tr)"
      "ExchangeTKEY e host keyname algorithm mode lifetime input extra tsigname tsigalgo tsigmac =
         ((case rr of None \<Rightarrow> (None, None, errs) | Some r \<Rightarrow> validate e r), EvLookupHost host # tr)"
proof (cases "build_tkey e keyname algorithm mode lifetime input")
  case (Inl err)
  then show ?thesis using unsupported by (simp add: ExchangeTKEY_def)
next
  case (Inr tkey)
  obtain addrs lerr where l: "net_LookupHost e host = (addrs, lerr)"
    by (cases "net_LookupHost e host") auto
  show ?thesis
  proof (cases lerr)
    case (Some err)
    with Inr l show ?thesis using unresolved by (simp add: ExchangeTKEY_def)
  next
    case None
    obtain client msg where a: "add_tsig e algorithm tsigname tsigalgo tsigmac
        (make_client e keyname algorithm) (make_msg e keyname tkey extra) = (client, msg)"
      by (cases "add_tsig e algorithm tsigname tsigalgo tsigmac
        (make_client e keyname algorithm) (make_msg e keyname tkey extra)") auto
    obtain rr errs tr where sl: "send_loop e client 0 addrs msg None = (rr, errs, tr)"
      by (cases "send_loop e client 0 addrs msg None") auto
    from Inr l None a sl
    have "ExchangeTKEY e host keyname algorithm mode lifetime input extra tsigname tsigalgo tsigmac =
         ((case rr of None \<Rightarrow> (None, None, errs) | Some r \<Rightarrow> validate e r), EvLookupHost host # tr)"
      by (simp add: ExchangeTKEY_def split: option.splits)
    with Inr l None a sl show ?thesis using sent by simp
  qed
qed

lemma ExchangeTKEY_received:
  assumes "received (snd (ExchangeTKEY e host keyname algorithm mode lifetime input extra tsigname tsigalgo tsigmac)) = Some rr"
  shows "fst (ExchangeTKEY e host keyname algorithm mode lifetime input extra tsigname tsigalgo tsigmac) = validate e rr"
proof (cases rule: ExchangeTKEY_cases [of e keyname algorithm mode lifetime input host extra tsigname tsigalgo tsigmac])
  case (unsupported err)
  with assms show ?thesis by (simp add: received_def)
next
  case (unresolved tkey addrs err)
  with assms show ?thesis by (simp add: received_def)
next
  case (sent tkey addrs client msg rr' errs tr)
  from send_loop_received [OF sent(4)] have "received tr = rr'" .
  with assms sent(5) have "rr' = Some rr" by (simp add: received_Lookup)
  with sent(5) show ?thesis by simp
qed

lemma build_tkey_unsupported:
  "mode \<noteq> TkeyModeDH \<Longrightarrow> mode \<noteq> TkeyModeGSS \<Longrightarrow> mode \<noteq> TkeyModeDelete \<Longrightarrow>
   build_tkey e keyname algorithm mode lifetime input =
     Inl (Errorf (''Unsupported TKEY mode '' @ fmt_d (uint mode)))"
  by (simp add: build_tkey_def)

lemma build_tkey_live:
  "mode = TkeyModeDH \<or> mode = TkeyModeGSS \<Longrightarrow>
   \<exists>t. build_tkey e keyname algorithm mode lifetime input = Inr t \<and>
       Inception t = ucast (time_Now_Unix e 0) \<and>
       Expiration t = ucast (time_Now_Unix e 0) + lifetime \<and> KeySize t = of_nat (length input)
       \<and> Key t = hex_EncodeToString input \<and> Mode t = mode \<and> Algorithm t = algorithm"
  by (auto simp add: build_tkey_def Let_def)

lemma build_tkey_delete:
  "\<exists>t. build_tkey e keyname algorithm TkeyModeDelete lifetime input = Inr t \<and>
       Inception t = 0 \<and> Expiration t = 0 \<and> KeySize t = of_nat (length input)
       \<and> Key t = hex_EncodeToString input"
  by (auto simp add: build_tkey_def Let_def TkeyModeDelete_def TkeyModeDH_def TkeyModeGSS_def)


lemma build_tkey_supported:
  assumes "mode = TkeyModeDH \<or> mode = TkeyModeGSS \<or> mode = TkeyModeDelete"
  shows "\<exists>t. build_tkey e keyname algorithm mode lifetime input = Inr t \<and>
       KeySize t = of_nat (length input) \<and> Key t = hex_EncodeToString input"
  using assms build_tkey_live [of mode e keyname algorithm lifetime input]
    build_tkey_delete [of e keyname algorithm lifetime input]
  by auto

lemma hextable_nth: "n < 16 \<Longrightarrow> hextable ! n = hex_digit n"
proof -
  have "\<forall>n\<in>{0..<16::nat}. hextable ! n = hex_digit n" by code_simp
  then show "n < 16 \<Longrightarrow> hextable ! n = hex_digit n" by simp
qed

lemma high_nibble: "unat (drop_bit 4 (v :: byte)) = unat v div 16"
  by (simp add: unat_drop_bit_eq drop_bit_eq_div unat_div_distrib)

lemma low_nibble: "unat ((v :: byte) AND 0x0f) = unat v mod 16"
proof -
  have "(v AND 0x0f) = take_bit 4 v"
    by (simp add: take_bit_eq_mask mask_eq_exp_minus_1)
  then show ?thesis by (simp add: unsigned_take_bit_eq take_bit_eq_mod unat_mod_distrib)
qed

lemma hex_EncodeToString_eq: "hex_EncodeToString bs = lowercase_hex bs"
proof (induction bs)
  case Nil
  show ?case by (simp add: lowercase_hex_def)
next
  case (Cons v bs)
  have "unat v < 256" using unsigned_less [of v, where 'a = nat] by simp
  hence "unat v div 16 < 16" by simp
  moreover have "unat v mod 16 < 16" by simp
  ultimately show ?case
    using Cons.IH by (simp add: lowercase_hex_def high_nibble low_nibble hextable_nth)
qed

lemma length_hex: "length (hex_EncodeToString bs) = 2 * length bs"
  by (induction bs) simp_all

lemma send_loop_Cons_cases:
  obtains
    (stop) m' r er where
      "client_Exchange e k c msg (JoinHostPort addr ''53'') = (m', r, er)"
      "er = None \<or> r \<noteq> None"
      "send_loop e c k (addr # addrs) msg errs =
         (r, errs, [EvExchange c msg (JoinHostPort addr ''53'') r er])"
  | (continue) m' x rr errs' tr where
      "client_Exchange e k c msg (JoinHostPort addr ''53'') = (m', None, Some x)"
      "send_loop e c (Suc k) addrs m' (Some (multierror_Append errs x)) = (rr, errs', tr)"
      "send_loop e c k (addr # addrs) msg errs =
         (rr, errs', EvExchange c msg (JoinHostPort addr ''53'') None (Some x) # tr)"
proof -
  obtain m' r er where ex: "client_Exchange e k c msg (JoinHostPort addr ''53'') = (m', r, er)"
    by (cases "client_Exchange e k c msg (JoinHostPort addr ''53'')") auto
  show thesis
  proof (cases "er = None \<or> r \<noteq> None")
    case True
    with ex show thesis using stop by simp
  next
    case False
    then obtain x where x: "er = Some x" "r = None" by auto
    obtain rr errs' tr where
      rest: "send_loop e c (Suc k) addrs m' (Some (multierror_Append errs x)) = (rr, errs', tr)"
      by (cases "send_loop e c (Suc k) addrs m' (Some (multierror_Append errs x))") auto
    with ex x show thesis using continue [of m' x rr errs' tr] by simp
  qed
qed

lemma send_loop_targets:
  "send_loop e c k addrs msg errs = (rr, errs', tr) \<Longrightarrow>
   length (exchanges tr) \<le> length addrs \<and>
   map fst (exchanges tr) = take (length (exchanges tr)) (map (\<lambda>a. JoinHostPort a ''53'') addrs) \<and>
   (addrs \<noteq> [] \<longrightarrow> exchanges tr \<noteq> [])"
proof (induction addrs arbitrary: k msg errs rr errs' tr)
  case Nil
  then show ?case by simp
next
  case (Cons addr addrs)
  show ?case
  proof (cases rule: send_loop_Cons_cases [of e k c msg addr addrs errs])
    case (stop m' r er)
    with Cons.prems show ?thesis by auto
  next
    case (continue m' x rr2 errs2 tr2)
    from Cons.IH [OF continue(2)] continue(3) Cons.prems show ?thesis by auto
  qed
qed

lemma send_loop_failed_before:
  "send_loop e c k addrs msg errs = (rr, errs', tr) \<Longrightarrow>
   list_all failed (butlast (exchanges tr)) \<and>
   (exchanges tr \<noteq> [] \<and> failed (last (exchanges tr)) \<longrightarrow> length (exchanges tr) = length addrs)"
proof (induction addrs arbitrary: k msg errs rr errs' tr)
  case Nil
  then show ?case by simp
next
  case (Cons addr addrs)
  show ?case
  proof (cases rule: send_loop_Cons_cases [of e k c msg addr addrs errs])
    case (stop m' r er)
    with Cons.prems show ?thesis by (cases r; cases er) auto
  next
    case (continue m' x rr2 errs2 tr2)
    from send_loop_targets [OF continue(2)]
    have e: "addrs \<noteq> [] \<longrightarrow> exchanges tr2 \<noteq> []" and l: "length (exchanges tr2) \<le> length addrs" by simp_all
    from Cons.IH [OF continue(2)] continue(3) Cons.prems e l show ?thesis by auto
  qed
qed

lemma send_loop_errs:
  "send_loop e c k addrs msg errs = (rr, errs', tr) \<Longrightarrow>
   errs' = (if filter failed (exchanges tr) = [] then errs
            else Some (MultiError ((case errs of None \<Rightarrow> [] | Some x \<Rightarrow> errors_of x) @
                                   attempt_errors (filter failed (exchanges tr)))))"
proof (induction addrs arbitrary: k msg errs rr errs' tr)
  case Nil
  then show ?case by simp
next
  case (Cons addr addrs)
  show ?case
  proof (cases rule: send_loop_Cons_cases [of e k c msg addr addrs errs])
    case (stop m' r er)
    with Cons.prems show ?thesis by (cases r; cases er) auto
  next
    case (continue m' x rr2 errs2 tr2)
    from Cons.IH [OF continue(2)] continue(3) Cons.prems show ?thesis
      by (auto simp add: multierror_Append_def)
  qed
qed

lemma filter_failed:
  assumes "list_all failed (butlast xs)" and "xs \<noteq> []"
  shows "filter failed xs = (if failed (last xs) then xs else butlast xs)"
proof -
  from assms(2) have xs: "xs = butlast xs @ [last xs]" by simp
  have "filter failed (butlast xs @ [last xs]) = (if failed (last xs) then butlast xs @ [last xs] else butlast xs)"
    using assms(1) by (simp add: list_all_iff filter_id_conv)
  with xs show ?thesis by simp
qed

lemma send_loop_calls:
  "send_loop e c k addrs msg errs = (rr, errs', tr) \<Longrightarrow>
   list_all (\<lambda>x. fst x = c) (calls tr) \<and>
   (addrs \<noteq> [] \<longrightarrow> (\<exists>rest. calls tr = (c, msg) # rest))"
proof (induction addrs arbitrary: k msg errs rr errs' tr)
  case Nil
  then show ?case by simp
next
  case (Cons addr addrs)
  show ?case
  proof (cases rule: send_loop_Cons_cases [of e k c msg addr addrs errs])
    case (stop m' r er)
    with Cons.prems show ?thesis by auto
  next
    case (continue m' x rr2 errs2 tr2)
    from Cons.IH [OF continue(2)] continue(3) Cons.prems show ?thesis by auto
  qed
qed

lemma send_loop_reuses_message:
  assumes "client_Exchange e k c msg (JoinHostPort a1 ''53'') = (m', None, Some x)"
  shows "\<exists>rest. calls (snd (snd (send_loop e c k (a1 # a2 # as) msg errs))) = (c, msg) # (c, m') # rest"
proof (cases rule: send_loop_Cons_cases [of e k c msg a1 "a2 # as" errs])
  case (stop m2 r er)
  with assms show ?thesis by auto
next
  case (continue m2 x2 rr2 errs2 tr2)
  with assms have "m2 = m'" by simp
  with send_loop_calls [OF continue(2)] continue(3) show ?thesis by auto
qed

subsection \<open>Validation of the response\<close>

text \<open>
  C1. Whenever the transport delivered a response \<open>rr\<close>, the results are decided by it
  alone, in this order: a status other than success gives the error
  "DNS error: NAME (CODE)"; otherwise no TKEY record among the answers gives
  "Received no TKEY response", two or more give "Multiple TKEY responses", and exactly one
  gives "TKEY error: NAME (CODE)" when its error field is not zero and else the success
  result: that record, and the answers that are not TKEY records in their order. So the
  error is nil exactly when the status is success and there is one TKEY answer with error
  zero.
\<close>

theorem C1_validation:
  assumes "received (snd (ExchangeTKEY e host keyname algorithm mode lifetime input extra tsigname tsigalgo tsigmac)) = Some rr"
  shows "fst (ExchangeTKEY e host keyname algorithm mode lifetime input extra tsigname tsigalgo tsigmac) =
     (if Rcode rr \<noteq> RcodeSuccess then
        (None, None,
         Some (Errorf (''DNS error: '' @ rcode_name e (Rcode rr) @ '' ('' @ fmt_d (Rcode rr) @ '')'')))
      else
        (case tkey_answers (Answer rr) of
           [] \<Rightarrow> (None, None, Some (Errorf ''Received no TKEY response''))
         | [t] \<Rightarrow>
             if Error t \<noteq> 0 then
               (None, None,
                Some (Errorf (''TKEY error: '' @ rcode_name e (uint (Error t)) @ '' ('' @
                              fmt_d (uint (Error t)) @ '')'')))
             else (Some t, Some (other_answers (Answer rr)), None)
         | t # t' # ts \<Rightarrow> (None, None, Some (Errorf ''Multiple TKEY responses'')))) \<and>
     (snd (snd (fst (ExchangeTKEY e host keyname algorithm mode lifetime input extra tsigname tsigalgo tsigmac))) = None
        \<longleftrightarrow> Rcode rr = RcodeSuccess \<and> (\<exists>t. tkey_answers (Answer rr) = [t] \<and> Error t = 0))"
  unfolding ExchangeTKEY_received [OF assms] validate_eq
  by (simp split: list.splits)


theorem C1_validation_witness:
  "fst (ExchangeTKEY
      (example_env\<lparr>client_Exchange :=
         answering (example_response 0 [RR_Other 7, RR_TKEY (example_tkey 0), RR_Other 9])\<rparr>)
      ''ns.example'' ''k.example.'' ''GSS-TSIG.'' TkeyModeGSS 3600 [1, 2, 0xAB] [] None None None)
     = (Some (example_tkey 0), Some [RR_Other 7, RR_Other 9], None) \<and>
   fst (ExchangeTKEY
      (example_env\<lparr>client_Exchange := answering (example_response 0 [RR_TKEY (example_tkey 17)])\<rparr>)
      ''ns.example'' ''k.example.'' ''GSS-TSIG.'' TkeyModeGSS 3600 [1, 2, 0xAB] [] None None None)
     = (None, None, Some (Errorf ''TKEY error: BADKEY (17)'')) \<and>
   fst (ExchangeTKEY
      (example_env\<lparr>client_Exchange := answering (example_response 2 [RR_TKEY (example_tkey 0)])\<rparr>)
      ''ns.example'' ''k.example.'' ''GSS-TSIG.'' TkeyModeGSS 3600 [1, 2, 0xAB] [] None None None)
     = (None, None, Some (Errorf ''DNS error: SERVFAIL (2)'')) \<and>
   fst (ExchangeTKEY
      (example_env\<lparr>client_Exchange :=
         answering (example_response 0 [RR_TKEY (example_tkey 17), RR_Other 7, RR_TKEY (example_tkey 0)])\<rparr>)
      ''ns.example'' ''k.example.'' ''GSS-TSIG.'' TkeyModeGSS 3600 [1, 2, 0xAB] [] None None None)
     = (None, None, Some (Errorf ''Multiple TKEY responses'')) \<and>
   fst (ExchangeTKEY
      (example_env\<lparr>client_Exchange := answering (example_response 0 [RR_Other 7])\<rparr>)
      ''ns.example'' ''k.example.'' ''GSS-TSIG.'' TkeyModeGSS 3600 [1, 2, 0xAB] [] None None None)
     = (None, None, Some (Errorf ''Received no TKEY response''))"
proof -
  let ?r1 = "example_response 0 [RR_Other 7, RR_TKEY (example_tkey 0), RR_Other 9]"
  let ?r2 = "example_response 0 [RR_TKEY (example_tkey 17)]"
  let ?r3 = "example_response 2 [RR_TKEY (example_tkey 0)]"
  let ?r4 = "example_response 0 [RR_TKEY (example_tkey 17), RR_Other 7, RR_TKEY (example_tkey 0)]"
  let ?r5 = "example_response 0 [RR_Other 7]"
  let ?run = "\<lambda>r. ExchangeTKEY (example_env\<lparr>client_Exchange := answering r\<rparr>)
      ''ns.example'' ''k.example.'' ''GSS-TSIG.'' TkeyModeGSS 3600 [1, 2, 0xAB] [] None None None"
  have h: "received (snd (?run r)) = Some r" for r
    by (simp add: run_defs answering_def)
  have d: "fmt_d 17 = ''17''" "fmt_d 2 = ''2''" by code_simp+
  have "fst (?run ?r1) = (Some (example_tkey 0), Some [RR_Other 7, RR_Other 9], None)"
    using C1_validation [OF h [of ?r1], THEN conjunct1]
    by (simp add: example_response_def example_tkey_def other_answers_def RcodeSuccess_def)
  moreover have "fst (?run ?r2) = (None, None, Some (Errorf ''TKEY error: BADKEY (17)''))"
    using C1_validation [OF h [of ?r2], THEN conjunct1] d
    by (simp add: example_response_def example_tkey_def RcodeSuccess_def rcode_name_def
        example_env_def example_rcodes_def)
  moreover have "fst (?run ?r3) = (None, None, Some (Errorf ''DNS error: SERVFAIL (2)''))"
    using C1_validation [OF h [of ?r3], THEN conjunct1] d
    by (simp add: example_response_def example_tkey_def RcodeSuccess_def rcode_name_def
        example_env_def example_rcodes_def)
  moreover have "fst (?run ?r4) = (None, None, Some (Errorf ''Multiple TKEY responses''))"
    using C1_validation [OF h [of ?r4], THEN conjunct1]
    by (simp add: example_response_def example_tkey_def RcodeSuccess_def)
  moreover have "fst (?run ?r5) = (None, None, Some (Errorf ''Received no TKEY response''))"
    using C1_validation [OF h [of ?r5], THEN conjunct1]
    by (simp add: example_response_def example_tkey_def RcodeSuccess_def)
  ultimately show ?thesis by simp
qed

subsection \<open>The request\<close>

text \<open>
  C2. For every mode other than DiffieHellman (2), GSS (3) and Delete (5), and so for
  ServerAssigned (1) and ResolverAssigned (4), the call returns no TKEY, no records and
  the error "Unsupported TKEY mode N", and it has called neither the resolver nor the
  transport.
\<close>

theorem C2_unsupported_mode:
  "(mode \<noteq> TkeyModeDH \<and> mode \<noteq> TkeyModeGSS \<and> mode \<noteq> TkeyModeDelete \<longrightarrow>
     ExchangeTKEY e host keyname algorithm mode lifetime input extra tsigname tsigalgo tsigmac =
       ((None, None, Some (Errorf (''Unsupported TKEY mode '' @ fmt_d (uint mode)))), [])) \<and>
   ExchangeTKEY e host keyname algorithm TkeyModeServer lifetime input extra tsigname tsigalgo tsigmac =
     ((None, None, Some (Errorf ''Unsupported TKEY mode 1'')), []) \<and>
   ExchangeTKEY e host keyname algorithm TkeyModeResolver lifetime input extra tsigname tsigalgo tsigmac =
     ((None, None, Some (Errorf ''Unsupported TKEY mode 4'')), [])"
proof -
  have d1: "fmt_d (uint TkeyModeServer) = ''1''"
    by code_simp
  have d4: "fmt_d (uint TkeyModeResolver) = ''4''"
    by code_simp
  have s: "TkeyModeServer \<noteq> TkeyModeDH" "TkeyModeServer \<noteq> TkeyModeGSS" "TkeyModeServer \<noteq> TkeyModeDelete"
    "TkeyModeResolver \<noteq> TkeyModeDH" "TkeyModeResolver \<noteq> TkeyModeGSS" "TkeyModeResolver \<noteq> TkeyModeDelete"
    by (simp_all add: TkeyModeServer_def TkeyModeDH_def TkeyModeGSS_def TkeyModeDelete_def TkeyModeResolver_def)
  show ?thesis
    using d1 d4 s by (simp add: ExchangeTKEY_def build_tkey_unsupported)
qed


theorem C2_unsupported_mode_witness:
  "ExchangeTKEY example_env ''ns.example'' ''k.example.'' ''hmac-sha256.'' 7 3600 [1, 2, 0xAB] []
     None None None = ((None, None, Some (Errorf ''Unsupported TKEY mode 7'')), [])"
proof -
  have d: "fmt_d (uint (7 :: uint16)) = ''7''" by code_simp
  have m: "(7 :: uint16) \<noteq> TkeyModeDH \<and> 7 \<noteq> TkeyModeGSS \<and> 7 \<noteq> TkeyModeDelete"
    by (simp add: TkeyModeDH_def TkeyModeGSS_def TkeyModeDelete_def)
  show ?thesis
    using C2_unsupported_mode [of 7 example_env "''ns.example''" "''k.example.''" "''hmac-sha256.''"
        3600 "[1, 2, 0xAB]" "[]" None None None] m d
    by simp
qed

text \<open>
  C3 (amended). In the modes DiffieHellman and GSS the TKEY record of the request has
  the inception \<open>uint32(now)\<close>, the epoch seconds the clock gave modulo \<open>2^32\<close> (their
  very value while they are below \<open>2^32\<close>), and the expiration inception plus lifetime
  modulo \<open>2^32\<close> (the sum of the two numbers while it is below \<open>2^32\<close>), so that
  expiration minus inception is the lifetime in unsigned 32-bit arithmetic. In the mode
  Delete both are zero, whatever the lifetime. As numbers the two equations can fail: with
  the clock at 1700000000 and a lifetime of 3000000000 the expiration is 405032704, and
  with the clock at 4294967396 the inception is 100.
\<close>

theorem C3_timestamps:
  "(mode = TkeyModeDH \<or> mode = TkeyModeGSS \<longrightarrow>
     (\<exists>t. build_tkey e keyname algorithm mode lifetime input = Inr t \<and>
          Inception t = ucast (time_Now_Unix e 0) \<and>
          (unat (time_Now_Unix e 0) < 2 ^ 32 \<longrightarrow> unat (Inception t) = unat (time_Now_Unix e 0)) \<and>
          Expiration t = Inception t + lifetime \<and>
          (unat (Inception t) + unat lifetime < 2 ^ 32 \<longrightarrow>
             unat (Expiration t) = unat (Inception t) + unat lifetime) \<and>
          Expiration t - Inception t = lifetime)) \<and>
   (mode = TkeyModeDelete \<longrightarrow>
     (\<exists>t. build_tkey e keyname algorithm mode lifetime input = Inr t \<and>
          Inception t = 0 \<and> Expiration t = 0))"
proof (intro conjI impI)
  assume m: "mode = TkeyModeDH \<or> mode = TkeyModeGSS"
  from build_tkey_live [OF m] obtain t where
    t: "build_tkey e keyname algorithm mode lifetime input = Inr t"
       "Inception t = ucast (time_Now_Unix e 0)"
       "Expiration t = ucast (time_Now_Unix e 0) + lifetime"
    by blast
  have "unat (time_Now_Unix e 0) < 2 ^ 32 \<longrightarrow> unat (ucast (time_Now_Unix e 0) :: uint32) = unat (time_Now_Unix e 0)"
    by (simp add: unsigned_ucast_eq take_bit_nat_eq_self)
  with t show "\<exists>t. build_tkey e keyname algorithm mode lifetime input = Inr t \<and>
          Inception t = ucast (time_Now_Unix e 0) \<and>
          (unat (time_Now_Unix e 0) < 2 ^ 32 \<longrightarrow> unat (Inception t) = unat (time_Now_Unix e 0)) \<and>
          Expiration t = Inception t + lifetime \<and>
          (unat (Inception t) + unat lifetime < 2 ^ 32 \<longrightarrow>
             unat (Expiration t) = unat (Inception t) + unat lifetime) \<and>
          Expiration t - Inception t = lifetime"
    by (auto simp add: unat_word_ariths)
next
  assume "mode = TkeyModeDelete"
  with build_tkey_delete [of e keyname algorithm lifetime input]
  show "\<exists>t. build_tkey e keyname algorithm mode lifetime input = Inr t \<and>
          Inception t = 0 \<and> Expiration t = 0"
    by auto
qed


theorem C3_timestamps_witness:
  "map_sum id (\<lambda>t. (Inception t, Expiration t))
     (build_tkey example_env ''k.example.'' ''gss-tsig.'' TkeyModeGSS 3600 [1, 2, 0xAB])
     = Inr (1700000000, 1700003600) \<and>
   map_sum id (\<lambda>t. (Inception t, Expiration t))
     (build_tkey example_env ''k.example.'' ''gss-tsig.'' TkeyModeDelete 3600 [1, 2, 0xAB])
     = Inr (0, 0)"
proof -
  have n: "time_Now_Unix example_env 0 = 1700000000" by (simp add: example_env_def)
  have "map_sum id (\<lambda>t. (Inception t, Expiration t))
     (build_tkey example_env ''k.example.'' ''gss-tsig.'' TkeyModeGSS 3600 [1, 2, 0xAB])
     = Inr (1700000000, 1700003600)"
    using C3_timestamps [of TkeyModeGSS example_env "''k.example.''" "''gss-tsig.''" 3600
        "[1, 2, 0xAB]", THEN conjunct1] n
    by auto
  moreover have "map_sum id (\<lambda>t. (Inception t, Expiration t))
     (build_tkey example_env ''k.example.'' ''gss-tsig.'' TkeyModeDelete 3600 [1, 2, 0xAB])
     = Inr (0, 0)"
    using C3_timestamps [of TkeyModeDelete example_env "''k.example.''" "''gss-tsig.''" 3600
        "[1, 2, 0xAB]", THEN conjunct2]
    by auto
  ultimately show ?thesis by simp
qed

theorem C3_integer_timestamps_counterexample:
  "map_sum id (unat \<circ> Inception)
     (build_tkey example_env ''k.example.'' ''gss-tsig.'' TkeyModeGSS 3000000000 [1, 2, 0xAB])
     = Inr 1700000000 \<and>
   unat (3000000000 :: uint32) = 3000000000 \<and>
   map_sum id (unat \<circ> Expiration)
     (build_tkey example_env ''k.example.'' ''gss-tsig.'' TkeyModeGSS 3000000000 [1, 2, 0xAB])
     = Inr 405032704 \<and>
   unat (time_Now_Unix (example_env\<lparr>time_Now_Unix := late_clock\<rparr>) 0) = 4294967396 \<and>
   map_sum id (unat \<circ> Inception)
     (build_tkey (example_env\<lparr>time_Now_Unix := late_clock\<rparr>) ''k.example.'' ''gss-tsig.''
        TkeyModeGSS 3600 [1, 2, 0xAB])
     = Inr 100"
  by (simp add: build_tkey_def example_env_def late_clock_def TkeyModeGSS_def TkeyModeDH_def Let_def)

text \<open>
  C10. The expiration is \<open>uint32(now) + lifetime\<close> in unsigned 32-bit arithmetic.
  Whenever that sum reaches \<open>2^32\<close> it wraps: the expiration of the TKEY record is
  below its inception, and expiration minus inception is still the lifetime modulo
  \<open>2^32\<close>.
\<close>

theorem C10_expiration_wraps:
  assumes m: "mode = TkeyModeDH \<or> mode = TkeyModeGSS"
    and ov: "2 ^ 32 \<le> unat (ucast (time_Now_Unix e 0) :: uint32) + unat lifetime"
  shows "\<exists>t. build_tkey e keyname algorithm mode lifetime input = Inr t \<and>
          Expiration t = (ucast (time_Now_Unix e 0) :: uint32) + lifetime \<and>
          unat (Expiration t) = (unat (Inception t) + unat lifetime) mod 2 ^ 32 \<and>
          Expiration t < Inception t \<and>
          Expiration t - Inception t = lifetime"
proof -
  from build_tkey_live [OF m] obtain t where
    t: "build_tkey e keyname algorithm mode lifetime input = Inr t"
       "Inception t = ucast (time_Now_Unix e 0)"
       "Expiration t = ucast (time_Now_Unix e 0) + lifetime"
    by blast
  define a :: uint32 where "a = ucast (time_Now_Unix e 0)"
  have la: "unat a < 2 ^ 32" and ll: "unat lifetime < 2 ^ 32"
    using unsigned_less [of a, where 'a = nat] unsigned_less [of lifetime, where 'a = nat] by simp_all
  have u: "unat (a + lifetime) = (unat a + unat lifetime) mod 2 ^ 32"
    by (simp add: unat_word_ariths)
  have "(unat a + unat lifetime) mod 2 ^ 32 = unat a + unat lifetime - 2 ^ 32"
    using ov la ll unfolding a_def [symmetric]
    by (simp add: mod_if)
  hence "unat (a + lifetime) < unat a"
    using u ov la ll unfolding a_def [symmetric] by linarith
  hence "a + lifetime < a" by (simp add: word_less_nat_alt)
  with t u show ?thesis unfolding a_def by auto
qed


theorem C10_expiration_wraps_witness:
  "2 ^ 32 \<le> unat (ucast (time_Now_Unix example_env 0) :: uint32) + unat (3000000000 :: uint32) \<and>
   map_sum id (\<lambda>t. (Inception t, Expiration t))
     (build_tkey example_env ''k.example.'' ''gss-tsig.'' TkeyModeDH 3000000000 [1, 2, 0xAB])
     = Inr (1700000000, 405032704)"
proof -
  have n: "time_Now_Unix example_env 0 = 1700000000" by (simp add: example_env_def)
  have ov: "2 ^ 32 \<le> unat (ucast (time_Now_Unix example_env 0) :: uint32) + unat (3000000000 :: uint32)"
    by (simp add: n)
  show ?thesis
    using C10_expiration_wraps [of TkeyModeDH example_env 3000000000 "''k.example.''"
        "''gss-tsig.''" "[1, 2, 0xAB]", OF _ ov] ov n
    by auto
qed

text \<open>
  C8 (amended). The key size of the TKEY record is \<open>uint16(len(input))\<close>: the byte
  length of the key material modulo \<open>2^16\<close>, hence the byte length itself whenever
  that is below 65536. The key is the lowercase hexadecimal encoding of the key material,
  two digits for every byte; the bytes 01, 02, AB give the key "0102ab" and the key
  size 3.
\<close>

theorem C8_key_material:
  assumes "mode = TkeyModeDH \<or> mode = TkeyModeGSS \<or> mode = TkeyModeDelete"
  shows "\<exists>t. build_tkey e keyname algorithm mode lifetime input = Inr t \<and>
       KeySize t = of_nat (length input) \<and>
       unat (KeySize t) = length input mod 2 ^ 16 \<and>
       (length input < 2 ^ 16 \<longrightarrow> unat (KeySize t) = length input) \<and>
       Key t = lowercase_hex input \<and>
       length (Key t) = 2 * length input \<and>
       (input = [0x01, 0x02, 0xAB] \<longrightarrow> Key t = ''0102ab'' \<and> KeySize t = 3)"
proof -
  from build_tkey_supported [OF assms] obtain t where
    t: "build_tkey e keyname algorithm mode lifetime input = Inr t"
       "KeySize t = of_nat (length input)" "Key t = hex_EncodeToString input"
    by blast
  have u: "unat (KeySize t) = length input mod 2 ^ 16"
    by (simp add: t(2) unat_of_nat)
  have x: "hex_EncodeToString [0x01, 0x02, 0xAB] = ''0102ab''"
    by (simp add: hextable_def)
  from t u x show ?thesis
    by (auto simp add: length_hex hex_EncodeToString_eq [symmetric])
qed

theorem C8_key_material_witness:
  "map_sum id (\<lambda>t. (KeySize t, Key t))
     (build_tkey example_env ''k.example.'' ''gss-tsig.'' TkeyModeGSS 3600 [0x01, 0x02, 0xAB])
   = Inr (3, ''0102ab'')"
  using C8_key_material [of TkeyModeGSS example_env "''k.example.''" "''gss-tsig.''" 3600
      "[0x01, 0x02, 0xAB]"]
  by auto

theorem C8_key_size_counterexample:
  "length (replicate 65536 (0 :: byte)) = 65536 \<and>
   map_sum id (\<lambda>t. unat (KeySize t))
     (build_tkey example_env ''k.example.'' ''gss-tsig.'' TkeyModeGSS 3600 (replicate 65536 0))
     = Inr 0"
  by (simp add: build_tkey_def TkeyModeGSS_def TkeyModeDH_def Let_def)

subsection \<open>Resolution and delivery\<close>

text \<open>
  C6 (amended). In a supported mode, when the resolver returns an error the call returns
  that error with no TKEY and no records, having made no transport attempt. When the
  resolver returns no address and no error, the call makes no transport attempt either
  and returns no TKEY and no records, and its error is nil.
\<close>

theorem C6_resolution:
  assumes "mode = TkeyModeDH \<or> mode = TkeyModeGSS \<or> mode = TkeyModeDelete"
  shows "(\<forall>addrs err. net_LookupHost e host = (addrs, Some err) \<longrightarrow>
            ExchangeTKEY e host keyname algorithm mode lifetime input extra tsigname tsigalgo tsigmac =
              ((None, None, Some err), [EvLookupHost host])) \<and>
         (net_LookupHost e host = ([], None) \<longrightarrow>
            ExchangeTKEY e host keyname algorithm mode lifetime input extra tsigname tsigalgo tsigmac =
              ((None, None, None), [EvLookupHost host]))"
proof -
  from build_tkey_supported [OF assms] obtain t where
    t: "build_tkey e keyname algorithm mode lifetime input = Inr t" by blast
  show ?thesis
    by (auto simp add: ExchangeTKEY_def t split: prod.splits)
qed

theorem C6_resolution_witness:
  "ExchangeTKEY (example_env\<lparr>net_LookupHost := not_resolving\<rparr>) ''ns.example'' ''k.example.''
     ''gss-tsig.'' TkeyModeGSS 3600 [1, 2, 0xAB] [] None None None =
     ((None, None, Some (LibError ''lookup ns.example: no such host'')), [EvLookupHost ''ns.example'']) \<and>
   ExchangeTKEY (example_env\<lparr>net_LookupHost := resolving_nothing\<rparr>) ''ns.example'' ''k.example.''
     ''hmac-sha256.'' TkeyModeDelete 0 [] [] None None None =
     ((None, None, None), [EvLookupHost ''ns.example''])"
  using C6_resolution [of TkeyModeGSS "example_env\<lparr>net_LookupHost := not_resolving\<rparr>"
      "''ns.example''" "''k.example.''" "''gss-tsig.''" 3600 "[1, 2, 0xAB]" "[]" None None None]
    C6_resolution [of TkeyModeDelete "example_env\<lparr>net_LookupHost := resolving_nothing\<rparr>"
      "''ns.example''" "''k.example.''" "''hmac-sha256.''" 0 "[]" "[]" None None None]
  by (simp add: not_resolving_def resolving_nothing_def)

theorem C6_empty_resolution_counterexample:
  "net_LookupHost (example_env\<lparr>net_LookupHost := resolving_nothing\<rparr>) ''ns.example'' = ([], None) \<and>
   fst (ExchangeTKEY (example_env\<lparr>net_LookupHost := resolving_nothing\<rparr>) ''ns.example'' ''k.example.''
     ''gss-tsig.'' TkeyModeGSS 3600 [1, 2, 0xAB] [] None None None) = (None, None, None)"
  by (simp add: run_defs resolving_nothing_def)

text \<open>
  C9. The call can return a nil TKEY, nil records and a nil error together: in a
  supported mode it does so whenever the resolver returns no address and no error (the
  transport is never called), and whenever the resolver returns an address and the first
  transport attempt returns neither a response nor an error (the loop stops after that
  one attempt).
\<close>

theorem C9_nil_nil_nil:
  assumes "mode = TkeyModeDH \<or> mode = TkeyModeGSS \<or> mode = TkeyModeDelete"
  shows "(net_LookupHost e host = ([], None) \<longrightarrow>
            ExchangeTKEY e host keyname algorithm mode lifetime input extra tsigname tsigalgo tsigmac =
              ((None, None, None), [EvLookupHost host])) \<and>
         (\<forall>a as. net_LookupHost e host = (a # as, None) \<and>
            (\<forall>c m. snd (client_Exchange e 0 c m (JoinHostPort a ''53'')) = (None, None)) \<longrightarrow>
            fst (ExchangeTKEY e host keyname algorithm mode lifetime input extra tsigname tsigalgo tsigmac) =
              (None, None, None) \<and>
            length (exchanges (snd (ExchangeTKEY e host keyname algorithm mode lifetime input extra
               tsigname tsigalgo tsigmac))) = 1)"
proof -
  from build_tkey_supported [OF assms] obtain t where
    t: "build_tkey e keyname algorithm mode lifetime input = Inr t" by blast
  have empty: "ExchangeTKEY e host keyname algorithm mode lifetime input extra tsigname tsigalgo tsigmac =
              ((None, None, None), [EvLookupHost host])"
    if "net_LookupHost e host = ([], None)"
    using that by (simp add: ExchangeTKEY_def t split: prod.splits)
  have quiet: "fst (ExchangeTKEY e host keyname algorithm mode lifetime input extra tsigname tsigalgo tsigmac) =
              (None, None, None) \<and>
            length (exchanges (snd (ExchangeTKEY e host keyname algorithm mode lifetime input extra
               tsigname tsigalgo tsigmac))) = 1"
    if h: "net_LookupHost e host = (a # as, None) \<and>
            (\<forall>c m. snd (client_Exchange e 0 c m (JoinHostPort a ''53'')) = (None, None))"
    for a as
  proof -
    obtain c m where cm: "add_tsig e algorithm tsigname tsigalgo tsigmac
        (make_client e keyname algorithm) (make_msg e keyname t extra) = (c, m)"
      by (cases "add_tsig e algorithm tsigname tsigalgo tsigmac
        (make_client e keyname algorithm) (make_msg e keyname t extra)") auto
    from h have "snd (client_Exchange e 0 c m (JoinHostPort a ''53'')) = (None, None)" by blast
    then obtain m' where "client_Exchange e 0 c m (JoinHostPort a ''53'') = (m', None, None)"
      by (cases "client_Exchange e 0 c m (JoinHostPort a ''53'')") auto
    hence "send_loop e c 0 (a # as) m None =
        (None, None, [EvExchange c m (JoinHostPort a ''53'') None None])"
      by simp
    with h t cm show ?thesis by (simp add: ExchangeTKEY_def)
  qed
  from empty quiet show ?thesis by blast
qed

theorem C9_nil_nil_nil_witness:
  "ExchangeTKEY (example_env\<lparr>net_LookupHost := resolving_nothing\<rparr>) ''ns.example'' ''k.example.''
     ''gss-tsig.'' TkeyModeGSS 3600 [1, 2, 0xAB] [] None None None =
     ((None, None, None), [EvLookupHost ''ns.example'']) \<and>
   fst (ExchangeTKEY (example_env\<lparr>client_Exchange := silent\<rparr>) ''ns.example'' ''k.example.''
     ''gss-tsig.'' TkeyModeGSS 3600 [1, 2, 0xAB] [] None None None) = (None, None, None) \<and>
   length (exchanges (snd (ExchangeTKEY (example_env\<lparr>client_Exchange := silent\<rparr>) ''ns.example''
     ''k.example.'' ''gss-tsig.'' TkeyModeGSS 3600 [1, 2, 0xAB] [] None None None))) = 1"
proof -
  have 1: "net_LookupHost (example_env\<lparr>net_LookupHost := resolving_nothing\<rparr>) ''ns.example'' = ([], None)"
    by (simp add: resolving_nothing_def)
  have 2: "net_LookupHost (example_env\<lparr>client_Exchange := silent\<rparr>) ''ns.example'' =
      (''192.0.2.1'' # [''2001:db8::1''], None) \<and>
      (\<forall>c m. snd (client_Exchange (example_env\<lparr>client_Exchange := silent\<rparr>) 0 c m
         (JoinHostPort ''192.0.2.1'' ''53'')) = (None, None))"
    by (simp add: example_env_def silent_def)
  note a = C9_nil_nil_nil [of TkeyModeGSS "example_env\<lparr>net_LookupHost := resolving_nothing\<rparr>"
      "''ns.example''" "''k.example.''" "''gss-tsig.''" 3600 "[1, 2, 0xAB]" "[]" None None None,
      THEN conjunct1, rule_format, OF _ 1]
  note b = C9_nil_nil_nil [of TkeyModeGSS "example_env\<lparr>client_Exchange := silent\<rparr>"
      "''ns.example''" "''k.example.''" "''gss-tsig.''" 3600 "[1, 2, 0xAB]" "[]" None None None,
      THEN conjunct2, rule_format, OF _ 2]
  from a b show ?thesis by simp
qed

text \<open>
  C4. In a supported mode and with at least one resolved address, every transport call
  gets the same client, and the first gets the message as built. When the algorithm
  lowers to "gss-tsig." the client maps that name to an algorithm with neither function
  and maps the key name to the empty secret, and the additional section is the TKEY
  record and the caller's records: no TSIG record, whatever the three TSIG parameters
  are. When it does not and the three parameters are given, the client's secrets map the
  TSIG key name to the MAC and the additional section ends with a TSIG record of that
  name and algorithm, fudge 300 and the clock's second reading as the time signed. When
  one of the three is missing the additional section is again the TKEY record and the
  caller's records, and outside the GSS case the client has no secret.
\<close>

theorem C4_tsig:
  assumes mode: "mode = TkeyModeDH \<or> mode = TkeyModeGSS \<or> mode = TkeyModeDelete"
    and lookup: "net_LookupHost e host = (a # as, None)"
  shows "\<exists>t c m rest.
     build_tkey e keyname algorithm mode lifetime input = Inr t \<and>
     calls (snd (ExchangeTKEY e host keyname algorithm mode lifetime input extra tsigname tsigalgo tsigmac))
       = (c, m) # rest \<and>
     list_all (\<lambda>x. fst x = c) rest \<and>
     (strings_ToLower e algorithm = GSS \<longrightarrow>
        TsigAlgorithm c = [GSS \<mapsto> \<lparr>Generate = None, Verify = None\<rparr>] \<and>
        TsigSecret c = [keyname \<mapsto> []] \<and>
        Extra m = RR_TKEY t # extra) \<and>
     (strings_ToLower e algorithm \<noteq> GSS \<longrightarrow>
        (\<forall>n alg mac. tsigname = Some n \<and> tsigalgo = Some alg \<and> tsigmac = Some mac \<longrightarrow>
           TsigSecret c = [n \<mapsto> mac] \<and>
           Extra m = RR_TKEY t # extra @
             [RR_TSIG \<lparr>Hdr_tsig = \<lparr>Name = n, Rrtype = TypeTSIG, Class = ClassANY, Ttl = 0, Rdlength = 0\<rparr>,
                       Algorithm_tsig = alg, TimeSigned = time_Now_Unix e 1, Fudge = 300,
                       MACSize = 0, MAC = [], OrigId = dns_Id e, Error_tsig = 0,
                       OtherLen_tsig = 0, OtherData_tsig = []\<rparr>])) \<and>
     (tsigname = None \<or> tsigalgo = None \<or> tsigmac = None \<longrightarrow>
        Extra m = RR_TKEY t # extra \<and>
        (strings_ToLower e algorithm \<noteq> GSS \<longrightarrow> TsigSecret c = Map.empty))"
proof (cases rule: ExchangeTKEY_cases [of e keyname algorithm mode lifetime input host extra tsigname tsigalgo tsigmac])
  case (unsupported err)
  with build_tkey_supported [OF mode, of e keyname algorithm lifetime input] show ?thesis by auto
next
  case (unresolved tkey addrs' err)
  with lookup show ?thesis by simp
next
  case (sent t addrs' c m rr errs tr)
  with lookup have loop: "send_loop e c 0 (a # as) m None = (rr, errs, tr)" by simp
  from send_loop_calls [OF loop] obtain rest where
    rest: "calls tr = (c, m) # rest" "list_all (\<lambda>x. fst x = c) rest"
    by auto
  have c: "calls (snd (ExchangeTKEY e host keyname algorithm mode lifetime input extra tsigname tsigalgo tsigmac))
       = (c, m) # rest"
    by (simp add: sent(5) rest(1))
  have gss: "TsigAlgorithm c = [GSS \<mapsto> \<lparr>Generate = None, Verify = None\<rparr>] \<and>
        TsigSecret c = [keyname \<mapsto> []] \<and> Extra m = RR_TKEY t # extra"
    if "strings_ToLower e algorithm = GSS"
    using that sent(3) by (auto simp add: add_tsig_def make_client_def make_msg_def)
  have signed: "TsigSecret c = [n \<mapsto> mac] \<and>
           Extra m = RR_TKEY t # extra @
             [RR_TSIG \<lparr>Hdr_tsig = \<lparr>Name = n, Rrtype = TypeTSIG, Class = ClassANY, Ttl = 0, Rdlength = 0\<rparr>,
                       Algorithm_tsig = alg, TimeSigned = time_Now_Unix e 1, Fudge = 300,
                       MACSize = 0, MAC = [], OrigId = dns_Id e, Error_tsig = 0,
                       OtherLen_tsig = 0, OtherData_tsig = []\<rparr>]"
    if "strings_ToLower e algorithm \<noteq> GSS" "tsigname = Some n \<and> tsigalgo = Some alg \<and> tsigmac = Some mac"
    for n alg mac
    using that sent(3) by (auto simp add: add_tsig_def make_client_def make_msg_def SetTsig_def)
  have plain: "Extra m = RR_TKEY t # extra \<and>
        (strings_ToLower e algorithm \<noteq> GSS \<longrightarrow> TsigSecret c = Map.empty)"
    if "tsigname = None \<or> tsigalgo = None \<or> tsigmac = None"
    using that sent(3) by (auto simp add: add_tsig_def make_client_def make_msg_def)
  from sent(1) c rest(2) gss signed plain show ?thesis by blast
qed

theorem C4_tsig_witness:
  "(\<exists>c m rest.
      calls (snd (ExchangeTKEY example_env ''ns.example'' ''k.example.'' ''GSS-TSIG.'' TkeyModeGSS 3600
        [1, 2, 0xAB] [RR_Other 5] (Some ''tsig.example.'') (Some ''hmac-sha256.'') (Some ''c2VjcmV0'')))
        = (c, m) # rest \<and>
      TsigAlgorithm c = [GSS \<mapsto> \<lparr>Generate = None, Verify = None\<rparr>] \<and>
      TsigSecret c = [''k.example.'' \<mapsto> []] \<and>
      map is_tsig (Extra m) = [False, False]) \<and>
   (\<exists>c m rest.
      calls (snd (ExchangeTKEY example_env ''ns.example'' ''k.example.'' ''hmac-sha256.'' TkeyModeDH 3600
        [1, 2, 0xAB] [RR_Other 5] (Some ''tsig.example.'') (Some ''hmac-sha256.'') (Some ''c2VjcmV0'')))
        = (c, m) # rest \<and>
      TsigSecret c = [''tsig.example.'' \<mapsto> ''c2VjcmV0''] \<and>
      map is_tsig (Extra m) = [False, False, True]) \<and>
   (\<exists>c m rest.
      calls (snd (ExchangeTKEY example_env ''ns.example'' ''k.example.'' ''hmac-sha256.'' TkeyModeDH 3600
        [1, 2, 0xAB] [RR_Other 5] (Some ''tsig.example.'') None (Some ''c2VjcmV0'')))
        = (c, m) # rest \<and>
      TsigSecret c = Map.empty \<and>
      map is_tsig (Extra m) = [False, False])"
proof -
  have l: "net_LookupHost example_env ''ns.example'' = (''192.0.2.1'' # [''2001:db8::1''], None)"
    by (simp add: example_env_def)
  have g: "strings_ToLower example_env ''GSS-TSIG.'' = GSS"
    by code_simp
  have h: "strings_ToLower example_env ''hmac-sha256.'' \<noteq> GSS"
    by code_simp
  have "\<exists>c m rest.
      calls (snd (ExchangeTKEY example_env ''ns.example'' ''k.example.'' ''GSS-TSIG.'' TkeyModeGSS 3600
        [1, 2, 0xAB] [RR_Other 5] (Some ''tsig.example.'') (Some ''hmac-sha256.'') (Some ''c2VjcmV0'')))
        = (c, m) # rest \<and>
      TsigAlgorithm c = [GSS \<mapsto> \<lparr>Generate = None, Verify = None\<rparr>] \<and>
      TsigSecret c = [''k.example.'' \<mapsto> []] \<and>
      map is_tsig (Extra m) = [False, False]"
    using C4_tsig [of TkeyModeGSS example_env "''ns.example''" _ _ "''k.example.''" "''GSS-TSIG.''"
      3600 "[1, 2, 0xAB]" "[RR_Other 5]" "Some ''tsig.example.''" "Some ''hmac-sha256.''"
      "Some ''c2VjcmV0''", OF _ l] g
    by fastforce
  moreover have "\<exists>c m rest.
      calls (snd (ExchangeTKEY example_env ''ns.example'' ''k.example.'' ''hmac-sha256.'' TkeyModeDH 3600
        [1, 2, 0xAB] [RR_Other 5] (Some ''tsig.example.'') (Some ''hmac-sha256.'') (Some ''c2VjcmV0'')))
        = (c, m) # rest \<and>
      TsigSecret c = [''tsig.example.'' \<mapsto> ''c2VjcmV0''] \<and>
      map is_tsig (Extra m) = [False, False, True]"
    using C4_tsig [of TkeyModeDH example_env "''ns.example''" _ _ "''k.example.''" "''hmac-sha256.''"
      3600 "[1, 2, 0xAB]" "[RR_Other 5]" "Some ''tsig.example.''" "Some ''hmac-sha256.''"
      "Some ''c2VjcmV0''", OF _ l] h
    by fastforce
  moreover have "\<exists>c m rest.
      calls (snd (ExchangeTKEY example_env ''ns.example'' ''k.example.'' ''hmac-sha256.'' TkeyModeDH 3600
        [1, 2, 0xAB] [RR_Other 5] (Some ''tsig.example.'') None (Some ''c2VjcmV0'')))
        = (c, m) # rest \<and>
      TsigSecret c = Map.empty \<and>
      map is_tsig (Extra m) = [False, False]"
    using C4_tsig [of TkeyModeDH example_env "''ns.example''" _ _ "''k.example.''" "''hmac-sha256.''"
      3600 "[1, 2, 0xAB]" "[RR_Other 5]" "Some ''tsig.example.''" None
      "Some ''c2VjcmV0''", OF _ l] h
    by fastforce
  ultimately show ?thesis by blast
qed

text \<open>
  C5 (amended). In a supported mode, with a resolver that returns a non-empty address
  list and no error: the transport is called on the addresses in their order, each
  joined with port 53; every attempt but the last made failed (an error and no
  response); the results depend on the last attempt. If it returned a response, they are
  the validation of that response and the errors of the earlier attempts are dropped. If
  it returned neither a response nor an error, the loop stopped there and the call
  returns no TKEY, no records and the errors of the earlier attempts (nil when there
  were none). If it failed too, every address was tried and the call returns the errors
  of all attempts, in order, none removed.
\<close>

theorem C5_failover:
  assumes mode: "mode = TkeyModeDH \<or> mode = TkeyModeGSS \<or> mode = TkeyModeDelete"
    and lookup: "net_LookupHost e host = (addrs, None)"
    and addrs: "addrs \<noteq> []"
  shows "let run = ExchangeTKEY e host keyname algorithm mode lifetime input extra tsigname tsigalgo tsigmac;
             xs = exchanges (snd run)
         in xs \<noteq> [] \<and> length xs \<le> length addrs \<and>
            map fst xs = take (length xs) (map (\<lambda>a. JoinHostPort a ''53'') addrs) \<and>
            list_all failed (butlast xs) \<and>
            (case snd (last xs) of
               (Some r, err) \<Rightarrow> fst run = validate e r
             | (None, None) \<Rightarrow> fst run = (None, None, aggregate (butlast xs))
             | (None, Some err) \<Rightarrow>
                 length xs = length addrs \<and> fst run = (None, None, aggregate xs))"
proof (cases rule: ExchangeTKEY_cases [of e keyname algorithm mode lifetime input host extra tsigname tsigalgo tsigmac])
  case (unsupported err)
  with build_tkey_supported [OF mode, of e keyname algorithm lifetime input] show ?thesis by auto
next
  case (unresolved tkey addrs' err)
  with lookup show ?thesis by simp
next
  case (sent tkey addrs' client msg rr errs tr)
  with lookup have loop: "send_loop e client 0 addrs msg None = (rr, errs, tr)" by simp
  define xs where "xs = exchanges tr"
  from send_loop_targets [OF loop] addrs
  have t: "xs \<noteq> []" "length xs \<le> length addrs"
    "map fst xs = take (length xs) (map (\<lambda>a. JoinHostPort a ''53'') addrs)"
    by (simp_all add: xs_def)
  from send_loop_failed_before [OF loop]
  have f: "list_all failed (butlast xs)" "failed (last xs) \<longrightarrow> length xs = length addrs"
    using t(1) by (simp_all add: xs_def)
  from send_loop_received [OF loop] t(1)
  have r: "fst (snd (last xs)) = rr"
    by (simp add: received_def xs_def split: list.splits)
  from send_loop_errs [OF loop] filter_failed [OF f(1) t(1)]
  have a: "errs = aggregate (if failed (last xs) then xs else butlast xs)"
    by (simp add: aggregate_def xs_def)
  obtain a0 r0 e0 where l: "last xs = (a0, r0, e0)" by (cases "last xs") auto
  let ?res = "case rr of None \<Rightarrow> (None, None, errs) | Some r \<Rightarrow> validate e r"
  have main: "case snd (last xs) of
               (Some r, err) \<Rightarrow> ?res = validate e r
             | (None, None) \<Rightarrow> ?res = (None, None, aggregate (butlast xs))
             | (None, Some err) \<Rightarrow>
                 length xs = length addrs \<and> ?res = (None, None, aggregate xs)"
    using r a f(2) l by (cases r0; cases e0) auto
  have ex_eq: "exchanges (snd (ExchangeTKEY e host keyname algorithm mode lifetime input extra
      tsigname tsigalgo tsigmac)) = xs"
    by (simp add: sent(5) xs_def)
  have fst_eq: "fst (ExchangeTKEY e host keyname algorithm mode lifetime input extra
      tsigname tsigalgo tsigmac) = (case rr of None \<Rightarrow> (None, None, errs) | Some r \<Rightarrow> validate e r)"
    by (simp add: sent(5))
  show ?thesis
    unfolding Let_def ex_eq fst_eq using t f(1) main by simp
qed

theorem C5_failover_witness:
  "fst (ExchangeTKEY (example_env\<lparr>client_Exchange := timing_out\<rparr>) ''ns.example''
      ''k.example.'' ''gss-tsig.'' TkeyModeGSS 3600 [1, 2, 0xAB] [] None None None) =
     (None, None, Some (MultiError [LibError ''i/o timeout'', LibError ''i/o timeout''])) \<and>
   map fst (exchanges (snd (ExchangeTKEY (example_env\<lparr>client_Exchange := timing_out\<rparr>) ''ns.example''
      ''k.example.'' ''gss-tsig.'' TkeyModeGSS 3600 [1, 2, 0xAB] [] None None None))) =
     [''192.0.2.1:53'', ''[2001:db8::1]:53''] \<and>
   fst (ExchangeTKEY
      (example_env\<lparr>client_Exchange :=
         failing_then_answering (example_response 0 [RR_TKEY (example_tkey 0), RR_Other 9])\<rparr>)
      ''ns.example'' ''k.example.'' ''gss-tsig.'' TkeyModeGSS 3600 [1, 2, 0xAB] [] None None None) =
     (Some (example_tkey 0), Some [RR_Other 9], None) \<and>
   fst (ExchangeTKEY (example_env\<lparr>client_Exchange := failing_then_silent\<rparr>) ''ns.example''
      ''k.example.'' ''gss-tsig.'' TkeyModeGSS 3600 [1, 2, 0xAB] [] None None None) =
     (None, None, Some (MultiError [LibError ''dial tcp 192.0.2.1:53'']))"
proof -
  let ?e1 = "example_env\<lparr>client_Exchange := timing_out\<rparr>"
  let ?e3 = "example_env\<lparr>client_Exchange := failing_then_silent\<rparr>"
  let ?r = "example_response 0 [RR_TKEY (example_tkey 0), RR_Other 9]"
  let ?e2 = "example_env\<lparr>client_Exchange := failing_then_answering ?r\<rparr>"
  let ?run = "\<lambda>e. ExchangeTKEY e ''ns.example'' ''k.example.'' ''gss-tsig.'' TkeyModeGSS 3600
      [1, 2, 0xAB] [] None None None"
  have l1: "net_LookupHost ?e1 ''ns.example'' = ([''192.0.2.1'', ''2001:db8::1''], None)"
    and l2: "net_LookupHost ?e2 ''ns.example'' = ([''192.0.2.1'', ''2001:db8::1''], None)"
    and l3: "net_LookupHost ?e3 ''ns.example'' = ([''192.0.2.1'', ''2001:db8::1''], None)"
    by (simp_all add: example_env_def)
  have x3: "exchanges (snd (?run ?e3)) =
      [(''192.0.2.1:53'', None, Some (LibError ''dial tcp 192.0.2.1:53'')),
       (''[2001:db8::1]:53'', None, None)]"
    by (simp add: run_defs failing_then_silent_def)
  have x1: "exchanges (snd (?run ?e1)) =
      [(''192.0.2.1:53'', None, Some (LibError ''i/o timeout'')),
       (''[2001:db8::1]:53'', None, Some (LibError ''i/o timeout''))]"
    by (simp add: run_defs timing_out_def)
  have x2: "exchanges (snd (?run ?e2)) =
      [(''192.0.2.1:53'', None, Some (LibError ''dial tcp 192.0.2.1:53'')),
       (''[2001:db8::1]:53'', Some ?r, None)]"
    by (simp add: run_defs failing_then_answering_def)
  have v: "validate ?e2 ?r = (Some (example_tkey 0), Some [RR_Other 9], None)"
    by (simp add: validate_def example_response_def example_tkey_def RcodeSuccess_def)
  from C5_failover [of TkeyModeGSS ?e1 "''ns.example''" _ "''k.example.''" "''gss-tsig.''" 3600
      "[1, 2, 0xAB]" "[]" None None None, OF _ l1]
  have "fst (?run ?e1) = (None, None, Some (MultiError [LibError ''i/o timeout'', LibError ''i/o timeout'']))"
    unfolding Let_def x1 by (simp add: aggregate_def)
  moreover
  from C5_failover [of TkeyModeGSS ?e2 "''ns.example''" _ "''k.example.''" "''gss-tsig.''" 3600
      "[1, 2, 0xAB]" "[]" None None None, OF _ l2]
  have "fst (?run ?e2) = (Some (example_tkey 0), Some [RR_Other 9], None)"
    unfolding Let_def x2 by (simp add: v)
  moreover
  from C5_failover [of TkeyModeGSS ?e3 "''ns.example''" _ "''k.example.''" "''gss-tsig.''" 3600
      "[1, 2, 0xAB]" "[]" None None None, OF _ l3]
  have "fst (?run ?e3) = (None, None, Some (MultiError [LibError ''dial tcp 192.0.2.1:53'']))"
    unfolding Let_def x3 by (simp add: aggregate_def)
  ultimately show ?thesis using x1 by simp
qed

theorem C5_silent_attempt_counterexample:
  "exchanges (snd (ExchangeTKEY (example_env\<lparr>client_Exchange := failing_then_silent\<rparr>) ''ns.example''
      ''k.example.'' ''gss-tsig.'' TkeyModeGSS 3600 [1, 2, 0xAB] [] None None None)) =
     [(''192.0.2.1:53'', None, Some (LibError ''dial tcp 192.0.2.1:53'')),
      (''[2001:db8::1]:53'', None, None)] \<and>
   fst (ExchangeTKEY (example_env\<lparr>client_Exchange := failing_then_silent\<rparr>) ''ns.example''
      ''k.example.'' ''gss-tsig.'' TkeyModeGSS 3600 [1, 2, 0xAB] [] None None None) =
     (None, None, Some (MultiError [LibError ''dial tcp 192.0.2.1:53'']))"
  by (simp add: run_defs failing_then_silent_def multierror_Append_def)

text \<open>
  C7. The specification has every attempt after the first handed a message derived
  anew, with the TSIG record applied again. The loop hands every attempt the one message
  object, in the state the attempt before left it in (\<open>send_loop_reuses_message\<close>),
  and \<open>SetTsig\<close> is called once, before the loop. With a transport that removes the
  TSIG record from the message it sends, as the comment of line 113 says the library
  does, and two addresses of which the first fails, the first attempt gets the TKEY
  record and the TSIG record, the second the TKEY record alone.
\<close>

theorem C7_message_reused:
  "map (\<lambda>x. map is_tsig (Extra (snd x)))
     (calls (snd (ExchangeTKEY (example_env\<lparr>client_Exchange := signing_then_failing\<rparr>) ''ns.example''
        ''k.example.'' ''hmac-sha256.'' TkeyModeDH 3600 [1, 2, 0xAB] []
        (Some ''tsig.example.'') (Some ''hmac-sha256.'') (Some ''c2VjcmV0''))))
     = [[False, True], [False]]"
  by (simp add: run_defs signing_then_failing_def drop_tsig_def multierror_Append_def)

end
